theory Spec2Isabelle
  imports Main "HOL-Library.Sublist"
begin

section \<open>Values shared by the server and the agent service\<close>

text \<open>
  Identifiers are strings, as in the TypeScript source (\<open>UUID\<close> is a branded string type).
  Loosely typed payloads (\<open>metadata?: any\<close>, \<open>raw_message?: any\<close>) are JSON values; an
  object is an association list read from the left, and an absent property (JavaScript
  \<open>undefined\<close>) is \<open>None\<close>.
\<close>

type_synonym UUID = string

datatype jval =
    JNull
  | JBool bool
  | JNum int
  | JStr string
  | JArr "jval list"
  | JObj "(string \<times> jval) list"

type_synonym obj = "(string \<times> jval) list"

text \<open>JavaScript truthiness of a possibly absent value.\<close>

fun truthy :: "jval option \<Rightarrow> bool" where
  "truthy None = False"
| "truthy (Some JNull) = False"
| "truthy (Some (JBool b)) = b"
| "truthy (Some (JNum n)) = (n \<noteq> 0)"
| "truthy (Some (JStr s)) = (s \<noteq> [])"
| "truthy (Some (JArr _)) = True"
| "truthy (Some (JObj _)) = True"

text \<open>Truthiness of an optional string: \<open>undefined\<close> and \<open>''\<close> are falsy.\<close>

fun truthyS :: "string option \<Rightarrow> bool" where
  "truthyS None = False"
| "truthyS (Some s) = (s \<noteq> [])"

text \<open>Optional chaining \<open>metadata?.key\<close> on a possibly absent object.\<close>

fun getprop :: "obj option \<Rightarrow> string \<Rightarrow> jval option" where
  "getprop None k = None"
| "getprop (Some ob) k = map_of ob k"

text \<open>\<open>a || b\<close> on possibly absent values.\<close>

definition js_or :: "jval option \<Rightarrow> jval option \<Rightarrow> jval option" where
  "js_or a b = (if truthy a then a else b)"

text \<open>\<open>String.prototype.includes\<close>: the argument occurs as a contiguous substring.\<close>

fun str_includes :: "'a list \<Rightarrow> 'a list \<Rightarrow> bool" where
  "str_includes [] ys = (ys = [])"
| "str_includes (x # xs) ys = (prefix ys (x # xs) \<or> str_includes xs ys)"

text \<open>\<open>s.substring(0, n)\<close>.\<close>

definition substring0 :: "string \<Rightarrow> nat \<Rightarrow> string" where
  "substring0 s n = take n s"

text \<open>A JavaScript \<open>Error\<close>; only its message is ever inspected.\<close>

datatype error = Error (error_message: string)

section \<open>MessageBusService: records exchanged with the agent runtime\<close>

text \<open>
  \<open>MessageServiceMessage\<close> is the bus payload. Field names carry a prefix where the source
  uses the same property name in several interfaces.
\<close>

record MessageServiceMessage =
  msg_id :: UUID
  msg_channel_id :: UUID
  msg_server_id :: UUID
  msg_author_id :: UUID
  msg_author_display_name :: "string option"
  msg_content :: string
  msg_raw_message :: "jval option"
  msg_source_id :: "string option"
  msg_source_type :: "string option"
  msg_in_reply_to_message_id :: "UUID option"
  msg_created_at :: int
  msg_metadata :: "obj option"

record World =
  world_id :: UUID
  world_name :: jval
  world_agentId :: UUID
  world_serverId :: "UUID option"
  world_metadata :: obj

record Room =
  room_id :: UUID
  room_name :: jval
  room_agentId :: UUID
  room_worldId :: UUID
  room_channelId :: "UUID option"
  room_serverId :: "UUID option"
  room_source :: string
  room_type :: "jval option"
  room_metadata :: obj

record Entity =
  entity_id :: UUID
  entity_names :: "string list"
  entity_agentId :: UUID
  entity_metadata_author_id :: UUID
  entity_metadata_source :: "string option"

record Content =
  c_text :: "string option"
  c_thought :: "string option"
  c_actions :: "string list option"
  c_source :: "string option"
  c_attachments :: "jval option"
  c_inReplyTo :: "UUID option"

record MemoryMetadata =
  mm_type :: string
  mm_source :: string
  mm_sourceId :: "UUID option"
  mm_raw :: "jval option"

record Memory =
  mem_id :: UUID
  mem_entityId :: UUID
  mem_agentId :: UUID
  mem_roomId :: UUID
  mem_worldId :: UUID
  mem_content :: Content
  mem_createdAt :: int
  mem_metadata :: "MemoryMetadata option"

text \<open>
  The callback handed to \<open>emitEvent\<close> is a closure over \<open>agentRoomId\<close>, \<open>agentWorldId\<close>,
  \<open>agentMemory.id\<close> and the bus message; it is kept as the record of what it captured.
\<close>

record ResponseCallback =
  cb_agentRoomId :: UUID
  cb_agentWorldId :: UUID
  cb_inReplyToAgentMemoryId :: "UUID option"
  cb_originalMessage :: "MessageServiceMessage option"

record MessageReceivedPayload =
  ev_message :: Memory
  ev_callback :: ResponseCallback

text \<open>The body POSTed to \<open>{CENTRAL_MESSAGE_SERVER_URL}/api/messages/submit\<close>.\<close>

record SubmitPayload =
  sp_channel_id :: UUID
  sp_server_id :: UUID
  sp_author_id :: UUID
  sp_content :: string
  sp_in_reply_to_message_id :: "UUID option"
  sp_source_type :: string
  sp_raw_text :: string
  sp_raw_thought :: "string option"
  sp_raw_actions :: "string list option"
  sp_meta_agent_id :: UUID
  sp_meta_agentName :: string
  sp_meta_attachments :: "jval option"
  sp_meta_channelType :: "jval option"
  sp_meta_isDm :: "jval option"

text \<open>The JSON answer of the participants endpoint: \<open>response.ok\<close> and the parsed body.\<close>

record ParticipantsResponse =
  pr_ok :: bool
  pr_success :: bool
  pr_data :: "UUID list option"

text \<open>The JSON answer of the agent-servers endpoint.\<close>

record ServersResponse =
  sr_ok :: bool
  sr_success :: bool
  sr_servers :: "UUID list option"

section \<open>MessageBusService: the runtime interface and the effect trace\<close>

text \<open>
  Every call that leaves the service is recorded, in order, with its arguments: the methods
  of \<open>IAgentRuntime\<close> and the outbound HTTP requests made with \<open>fetch\<close>.
\<close>

datatype call =
    FetchParticipants UUID
  | FetchAgentServers UUID
  | EnsureWorldExists World
  | EnsureRoomExists Room
  | GetEntityById UUID
  | CreateEntity Entity
  | GetMemoryById UUID
  | CreateMemory Memory
  | EmitMessageReceived MessageReceivedPayload
  | GetRoom UUID
  | GetWorld UUID
  | PostSubmit SubmitPayload

text \<open>
  The runtime and the central server are external to the service. Their behaviour is a
  parameter: each operation maps the external state \<open>'s\<close> to a result, or a thrown
  \<open>error\<close>, and a new state. \<open>createUniqueUuid\<close> is the core helper applied to this runtime.
  The three \<open>fetch_\<close> fields are the service's calls of the global \<open>fetch\<close>: the GET of a
  channel's participants, the GET of the agent's servers and the POST to the submit
  endpoint, which answers \<open>response.ok\<close>.
\<close>

record 's IAgentRuntime =
  agentId :: UUID
  characterName :: string
  createUniqueUuid :: "UUID \<Rightarrow> UUID"
  fetch_participants :: "UUID \<Rightarrow> 's \<Rightarrow> (error + ParticipantsResponse) \<times> 's"
  fetch_agent_servers :: "UUID \<Rightarrow> 's \<Rightarrow> (error + ServersResponse) \<times> 's"
  ensureWorldExists :: "World \<Rightarrow> 's \<Rightarrow> (error + unit) \<times> 's"
  ensureRoomExists :: "Room \<Rightarrow> 's \<Rightarrow> (error + unit) \<times> 's"
  getEntityById :: "UUID \<Rightarrow> 's \<Rightarrow> (error + Entity option) \<times> 's"
  createEntity :: "Entity \<Rightarrow> 's \<Rightarrow> (error + bool) \<times> 's"
  getMemoryById :: "UUID \<Rightarrow> 's \<Rightarrow> (error + Memory option) \<times> 's"
  createMemory :: "Memory \<Rightarrow> 's \<Rightarrow> (error + UUID) \<times> 's"
  emitMessageReceived :: "MessageReceivedPayload \<Rightarrow> 's \<Rightarrow> (error + unit) \<times> 's"
  getRoom :: "UUID \<Rightarrow> 's \<Rightarrow> (error + Room option) \<times> 's"
  getWorld :: "UUID \<Rightarrow> 's \<Rightarrow> (error + World option) \<times> 's"
  fetch_submit :: "SubmitPayload \<Rightarrow> 's \<Rightarrow> (error + bool) \<times> 's"

text \<open>
  An asynchronous method body: it runs on the external state and the trace so far, and
  either returns a value or throws.
\<close>

type_synonym ('s, 'a) io = "'s \<times> call list \<Rightarrow> (error + 'a) \<times> ('s \<times> call list)"

definition io_return :: "'a \<Rightarrow> ('s, 'a) io" where
  "io_return x = (\<lambda>w. (Inr x, w))"

definition io_throw :: "error \<Rightarrow> ('s, 'a) io" where
  "io_throw e = (\<lambda>w. (Inl e, w))"

definition io_bind :: "('s, 'a) io \<Rightarrow> ('a \<Rightarrow> ('s, 'b) io) \<Rightarrow> ('s, 'b) io" where
  "io_bind m f = (\<lambda>w. case m w of (Inl e, w') \<Rightarrow> (Inl e, w') | (Inr x, w') \<Rightarrow> f x w')"

text \<open>\<open>try { m } catch (error) { h error }\<close>.\<close>

definition io_catch :: "('s, 'a) io \<Rightarrow> (error \<Rightarrow> ('s, 'a) io) \<Rightarrow> ('s, 'a) io" where
  "io_catch m h = (\<lambda>w. case m w of (Inl e, w') \<Rightarrow> h e w' | (Inr x, w') \<Rightarrow> (Inr x, w'))"

text \<open>An awaited external call: it is appended to the trace, then run on the state.\<close>

definition invoke :: "call \<Rightarrow> ('s \<Rightarrow> (error + 'a) \<times> 's) \<Rightarrow> ('s, 'a) io" where
  "invoke c f = (\<lambda>(s, tr). case f s of (r, s') \<Rightarrow> (r, (s', tr @ [c])))"

text \<open>
  Modelled from the spec: the members of the core package's \<open>ChannelType\<close> enum that the
  source compares against and assigns; a channel's type is one of \<open>DM\<close>, \<open>GROUP\<close>, \<open>WORLD\<close>.
\<close>

definition ChannelType_DM :: string where
  "ChannelType_DM = ''DM''"

definition ChannelType_GROUP :: string where
  "ChannelType_GROUP = ''GROUP''"

text \<open>\<open>a || `literal`\<close> where the left operand is loosely typed.\<close>

definition js_or_str :: "jval option \<Rightarrow> string \<Rightarrow> jval" where
  "js_or_str a s = (if truthy a then the a else JStr s)"

text \<open>\<open>a || 'literal'\<close> on an optional string.\<close>

definition str_or :: "string option \<Rightarrow> string \<Rightarrow> string" where
  "str_or a s = (if truthyS a then the a else s)"

text \<open>The decimal rendering of an array index.\<close>

fun decimal :: "nat \<Rightarrow> string" where
  "decimal n =
     (if n < 10 then [''0123456789'' ! n]
      else decimal (n div 10) @ [''0123456789'' ! (n mod 10)])"

text \<open>The own enumerable properties of an array-like value: its elements under their index.\<close>

definition indexed :: "jval list \<Rightarrow> obj" where
  "indexed vs = map (\<lambda>(i, v). (decimal i, v)) (enumerate 0 vs)"

text \<open>
  \<open>{ ...(v || {}) }\<close>: an object spreads to its properties, an array to its elements and a
  non-empty string to its characters, each under its index; \<open>undefined\<close>, \<open>null\<close>, the empty
  string, numbers and booleans spread to nothing.
\<close>

fun spread :: "jval option \<Rightarrow> obj" where
  "spread (Some (JObj ob)) = ob"
| "spread (Some (JArr vs)) = indexed vs"
| "spread (Some (JStr s)) = indexed (map (\<lambda>c. JStr [c]) s)"
| "spread _ = []"

text \<open>
  \<open>String.prototype.trim\<close> on the code units below 256: tab, line feed, vertical tab, form
  feed, carriage return, space and no-break space are white space.
\<close>

definition is_js_whitespace :: "char \<Rightarrow> bool" where
  "is_js_whitespace c \<longleftrightarrow>
     c \<in> set [CHR 0x09, CHR 0x0A, CHR 0x0B, CHR 0x0C, CHR 0x0D, CHR 0x20, CHR 0xA0]"

definition trim :: "string \<Rightarrow> string" where
  "trim s = rev (dropWhile is_js_whitespace (rev (dropWhile is_js_whitespace s)))"

section \<open>MessageBusService\<close>

text \<open>
  The service's only mutable field is \<open>subscribedServers: Set<UUID>\<close>. The payload of a
  \<open>server_agent_update\<close> bus event carries \<open>agentId\<close>, \<open>type\<close> and \<open>serverId\<close>.
\<close>

record MessageBusService =
  subscribedServers :: "UUID set"

record ServerAgentUpdate =
  upd_agentId :: UUID
  upd_type :: string
  upd_serverId :: UUID

definition getChannelParticipants :: "'s IAgentRuntime \<Rightarrow> UUID \<Rightarrow> ('s, UUID list) io" where
  "getChannelParticipants rt channelId =
     io_catch
       (io_bind (invoke (FetchParticipants channelId) (fetch_participants rt channelId))
          (\<lambda>response.
             if pr_ok response \<and> pr_success response \<and> pr_data response \<noteq> None
             then io_return (the (pr_data response))
             else io_return []))
       (\<lambda>error. io_return [])"

text \<open>
  \<open>fetchAgentServers\<close> replaces the cache only on an ok answer with \<open>success\<close> and a
  \<open>servers\<close> array; the new service value is the result.
\<close>

definition fetchAgentServers ::
  "'s IAgentRuntime \<Rightarrow> MessageBusService \<Rightarrow> ('s, MessageBusService) io" where
  "fetchAgentServers rt svc =
     io_catch
       (io_bind (invoke (FetchAgentServers (agentId rt)) (fetch_agent_servers rt (agentId rt)))
          (\<lambda>response.
             if sr_ok response \<and> sr_success response \<and> sr_servers response \<noteq> None
             then io_return (svc\<lparr>subscribedServers := set (the (sr_servers response))\<rparr>)
             else io_return svc))
       (\<lambda>error. io_return svc)"

definition handleServerAgentUpdate ::
  "'s IAgentRuntime \<Rightarrow> MessageBusService \<Rightarrow> ServerAgentUpdate \<Rightarrow> MessageBusService" where
  "handleServerAgentUpdate rt svc data =
     (if upd_agentId data \<noteq> agentId rt then svc
      else if upd_type data = ''agent_added_to_server''
        then svc\<lparr>subscribedServers := insert (upd_serverId data) (subscribedServers svc)\<rparr>
      else if upd_type data = ''agent_removed_from_server''
        then svc\<lparr>subscribedServers := subscribedServers svc - {upd_serverId data}\<rparr>
      else svc)"

definition validateServerSubscription :: "MessageBusService \<Rightarrow> MessageServiceMessage \<Rightarrow> bool" where
  "validateServerSubscription svc message \<longleftrightarrow> msg_server_id message \<in> subscribedServers svc"

definition validateNotSelfMessage :: "'s IAgentRuntime \<Rightarrow> MessageServiceMessage \<Rightarrow> bool" where
  "validateNotSelfMessage rt message \<longleftrightarrow> msg_author_id message \<noteq> agentId rt"

definition worldFor :: "'s IAgentRuntime \<Rightarrow> MessageServiceMessage \<Rightarrow> World" where
  "worldFor rt message =
     \<lparr> world_id = createUniqueUuid rt (msg_server_id message),
       world_name = js_or_str (getprop (msg_metadata message) ''serverName'')
                      (''Server '' @ substring0 (msg_server_id message) 8),
       world_agentId = agentId rt,
       world_serverId = Some (msg_server_id message),
       world_metadata = spread (getprop (msg_metadata message) ''serverMetadata'') \<rparr>"

definition roomFor :: "'s IAgentRuntime \<Rightarrow> MessageServiceMessage \<Rightarrow> Room" where
  "roomFor rt message =
     \<lparr> room_id = createUniqueUuid rt (msg_channel_id message),
       room_name = js_or_str (getprop (msg_metadata message) ''channelName'')
                     (''Channel '' @ substring0 (msg_channel_id message) 8),
       room_agentId = agentId rt,
       room_worldId = createUniqueUuid rt (msg_server_id message),
       room_channelId = Some (msg_channel_id message),
       room_serverId = Some (msg_server_id message),
       room_source = str_or (msg_source_type message) ''central-bus'',
       room_type = Some (js_or_str (getprop (msg_metadata message) ''channelType'')
                     ChannelType_GROUP),
       room_metadata = spread (getprop (msg_metadata message) ''channelMetadata'') \<rparr>"

text \<open>
  \<open>ensureWorldAndRoomExist\<close>: a thrown error whose message contains the primary-key
  constraint name is swallowed, any other error is thrown on. The result is the pair
  \<open>(agentWorldId, agentRoomId)\<close>.
\<close>

definition ensureWorldAndRoomExist ::
  "'s IAgentRuntime \<Rightarrow> MessageServiceMessage \<Rightarrow> ('s, UUID \<times> UUID) io" where
  "ensureWorldAndRoomExist rt message =
     (let agentWorldId = createUniqueUuid rt (msg_server_id message);
          agentRoomId = createUniqueUuid rt (msg_channel_id message)
      in io_bind
           (io_catch
              (invoke (EnsureWorldExists (worldFor rt message))
                 (ensureWorldExists rt (worldFor rt message)))
              (\<lambda>error.
                 if error_message error \<noteq> [] \<and> str_includes (error_message error) ''worlds_pkey''
                 then io_return () else io_throw error))
           (\<lambda>_. io_bind
              (io_catch
                 (invoke (EnsureRoomExists (roomFor rt message))
                    (ensureRoomExists rt (roomFor rt message)))
                 (\<lambda>error.
                    if error_message error \<noteq> [] \<and> str_includes (error_message error) ''rooms_pkey''
                    then io_return () else io_throw error))
              (\<lambda>_. io_return (agentWorldId, agentRoomId))))"

definition authorEntityFor :: "'s IAgentRuntime \<Rightarrow> MessageServiceMessage \<Rightarrow> Entity" where
  "authorEntityFor rt message =
     \<lparr> entity_id = createUniqueUuid rt (msg_author_id message),
       entity_names = [str_or (msg_author_display_name message)
                         (''User-'' @ substring0 (msg_author_id message) 8)],
       entity_agentId = agentId rt,
       entity_metadata_author_id = msg_author_id message,
       entity_metadata_source = msg_source_type message \<rparr>"

definition ensureAuthorEntityExists ::
  "'s IAgentRuntime \<Rightarrow> MessageServiceMessage \<Rightarrow> ('s, UUID) io" where
  "ensureAuthorEntityExists rt message =
     (let agentAuthorEntityId = createUniqueUuid rt (msg_author_id message)
      in io_bind (invoke (GetEntityById agentAuthorEntityId) (getEntityById rt agentAuthorEntityId))
           (\<lambda>authorEntity.
              if authorEntity = None
              then io_bind
                     (invoke (CreateEntity (authorEntityFor rt message))
                        (createEntity rt (authorEntityFor rt message)))
                     (\<lambda>_. io_return agentAuthorEntityId)
              else io_return agentAuthorEntityId))"

definition createAgentMemory ::
  "'s IAgentRuntime \<Rightarrow> MessageServiceMessage \<Rightarrow> UUID \<Rightarrow> UUID \<Rightarrow> UUID \<Rightarrow> Memory" where
  "createAgentMemory rt message agentAuthorEntityId agentRoomId agentWorldId =
     \<lparr> mem_id = createUniqueUuid rt (msg_id message),
       mem_entityId = agentAuthorEntityId,
       mem_agentId = agentId rt,
       mem_roomId = agentRoomId,
       mem_worldId = agentWorldId,
       mem_content =
         \<lparr> c_text = Some (msg_content message),
           c_thought = None,
           c_actions = None,
           c_source = Some (str_or (msg_source_type message) ''central-bus''),
           c_attachments = getprop (msg_metadata message) ''attachments'',
           c_inReplyTo =
             (if truthyS (msg_in_reply_to_message_id message)
              then Some (createUniqueUuid rt (the (msg_in_reply_to_message_id message)))
              else None) \<rparr>,
       mem_createdAt = msg_created_at message,
       mem_metadata =
         Some \<lparr> mm_type = ''message'',
                mm_source = str_or (msg_source_type message) ''central-bus'',
                mm_sourceId = Some (msg_id message),
                mm_raw = msg_raw_message message \<rparr> \<rparr>"

text \<open>
  \<open>handleIncomingMessage\<close>. The participant check runs before the \<open>try\<close> block; the two
  validations, world, room and entity reconciliation, the duplicate check and the emission
  run inside it, and the \<open>catch\<close> clause only logs. What the runtime's listeners do with the
  event, storing the Memory and invoking the callback included, is the runtime's
  \<open>emitMessageReceived\<close>.
\<close>

definition handleIncomingMessage ::
  "'s IAgentRuntime \<Rightarrow> MessageBusService \<Rightarrow> MessageServiceMessage \<Rightarrow> ('s, unit) io" where
  "handleIncomingMessage rt svc message =
     io_bind (getChannelParticipants rt (msg_channel_id message))
       (\<lambda>participants.
          if agentId rt \<notin> set participants then io_return ()
          else io_catch
            (if \<not> validateServerSubscription svc message then io_return ()
             else if \<not> validateNotSelfMessage rt message then io_return ()
             else io_bind (ensureWorldAndRoomExist rt message)
               (\<lambda>(agentWorldId, agentRoomId).
                  io_bind (ensureAuthorEntityExists rt message)
                    (\<lambda>agentAuthorEntityId.
                       let agentMemory = createAgentMemory rt message agentAuthorEntityId
                                           agentRoomId agentWorldId
                       in io_bind
                            (invoke (GetMemoryById (mem_id agentMemory))
                               (getMemoryById rt (mem_id agentMemory)))
                            (\<lambda>existingMemory.
                               if existingMemory \<noteq> None then io_return ()
                               else invoke
                                 (EmitMessageReceived
                                    \<lparr> ev_message = agentMemory,
                                      ev_callback =
                                        \<lparr> cb_agentRoomId = agentRoomId,
                                          cb_agentWorldId = agentWorldId,
                                          cb_inReplyToAgentMemoryId = Some (mem_id agentMemory),
                                          cb_originalMessage = Some message \<rparr> \<rparr>)
                                 (emitMessageReceived rt
                                    \<lparr> ev_message = agentMemory,
                                      ev_callback =
                                        \<lparr> cb_agentRoomId = agentRoomId,
                                          cb_agentWorldId = agentWorldId,
                                          cb_inReplyToAgentMemoryId = Some (mem_id agentMemory),
                                          cb_originalMessage = Some message \<rparr> \<rparr>)))))
            (\<lambda>error. io_return ()))"

text \<open>
  \<open>sendAgentResponseToBus\<close>. The whole body is inside \<open>try\<close>; the \<open>catch\<close> clause only
  logs. A response that is not ok is logged too, so the answer of the POST is dropped.
\<close>

definition submitPayloadFor ::
  "'s IAgentRuntime \<Rightarrow> UUID \<Rightarrow> UUID \<Rightarrow> Content \<Rightarrow> UUID option \<Rightarrow>
     MessageServiceMessage option \<Rightarrow> Room option \<Rightarrow> SubmitPayload" where
  "submitPayloadFor rt channelId serverId content centralInReplyToRootMessageId
       originalMessage room =
     (let channelType =
            js_or (getprop (Option.bind originalMessage msg_metadata) ''channelType'')
              (Option.bind room room_type)
      in \<lparr> sp_channel_id = channelId,
           sp_server_id = serverId,
           sp_author_id = agentId rt,
           sp_content = the (c_text content),
           sp_in_reply_to_message_id = centralInReplyToRootMessageId,
           sp_source_type = ''agent_response'',
           sp_raw_text = the (c_text content),
           sp_raw_thought = c_thought content,
           sp_raw_actions = c_actions content,
           sp_meta_agent_id = agentId rt,
           sp_meta_agentName = characterName rt,
           sp_meta_attachments = c_attachments content,
           sp_meta_channelType = channelType,
           sp_meta_isDm =
             js_or (getprop (Option.bind originalMessage msg_metadata) ''isDm'')
               (Some (JBool (channelType = Some (JStr ChannelType_DM)))) \<rparr>)"

definition sendAgentResponseToBus ::
  "'s IAgentRuntime \<Rightarrow> UUID \<Rightarrow> UUID \<Rightarrow> Content \<Rightarrow> UUID option \<Rightarrow>
     MessageServiceMessage option \<Rightarrow> ('s, unit) io" where
  "sendAgentResponseToBus rt agentRoomId agentWorldId content inReplyToAgentMemoryId
       originalMessage =
     io_catch
       (if c_actions content \<noteq> None \<and> ''IGNORE'' \<in> set (the (c_actions content))
        then io_return ()
        else if \<not> truthyS (c_text content) \<or> trim (the (c_text content)) = []
        then io_return ()
        else io_bind (invoke (GetRoom agentRoomId) (getRoom rt agentRoomId))
          (\<lambda>room. io_bind (invoke (GetWorld agentWorldId) (getWorld rt agentWorldId))
             (\<lambda>world.
                let channelId = Option.bind room room_channelId;
                    serverId = Option.bind world world_serverId
                in if \<not> truthyS channelId \<or> \<not> truthyS serverId then io_return ()
                   else io_bind
                     (if truthyS inReplyToAgentMemoryId
                      then io_bind
                             (invoke (GetMemoryById (the inReplyToAgentMemoryId))
                                (getMemoryById rt (the inReplyToAgentMemoryId)))
                             (\<lambda>originalAgentMemory.
                                let sourceId =
                                      Option.bind
                                        (Option.bind originalAgentMemory mem_metadata)
                                        mm_sourceId
                                in io_return (if truthyS sourceId then sourceId else None))
                      else io_return None)
                     (\<lambda>centralInReplyToRootMessageId.
                        io_bind
                          (invoke
                             (PostSubmit
                                (submitPayloadFor rt (the channelId) (the serverId) content
                                   centralInReplyToRootMessageId originalMessage room))
                             (fetch_submit rt
                                (submitPayloadFor rt (the channelId) (the serverId) content
                                   centralInReplyToRootMessageId originalMessage room)))
                          (\<lambda>response_ok. io_return ())))))
       (\<lambda>error. io_return ())"

text \<open>The callback built by \<open>handleIncomingMessage\<close>, applied to the agent's reply.\<close>

definition callbackForCentralBus ::
  "'s IAgentRuntime \<Rightarrow> ResponseCallback \<Rightarrow> Content \<Rightarrow> ('s, unit) io" where
  "callbackForCentralBus rt cb responseContent =
     sendAgentResponseToBus rt (cb_agentRoomId cb) (cb_agentWorldId cb) responseContent
       (cb_inReplyToAgentMemoryId cb) (cb_originalMessage cb)"

text \<open>Running a handler from an external state with an empty trace: the calls it made.\<close>

definition calls_of :: "('s, 'a) io \<Rightarrow> 's \<Rightarrow> call list" where
  "calls_of m s = snd (snd (m (s, [])))"


section \<open>The central channel and message HTTP API: data\<close>

definition DEFAULT_SERVER_ID :: UUID where
  "DEFAULT_SERVER_ID = ''00000000-0000-0000-0000-000000000000''"

text \<open>
  The request of the message route: the URL parameter and the destructured body. Body
  fields are strings when present, as the GUI sends them; an absent field is \<open>None\<close>.
\<close>

record PostMessageRequest =
  req_channelId :: string
  body_author_id :: "string option"
  body_content :: "string option"
  body_in_reply_to_message_id :: "string option"
  body_server_id :: "string option"
  body_raw_message :: "jval option"
  body_metadata :: "obj option"
  body_source_type :: "string option"

record MessageServer =
  srv_id :: UUID
  srv_name :: string

record ChannelData =
  cd_id :: UUID
  cd_messageServerId :: UUID
  cd_name :: string
  cd_type :: string
  cd_sourceType :: string
  cd_metadata :: obj

record NewRootMessageData =
  nm_channelId :: UUID
  nm_authorId :: UUID
  nm_content :: string
  nm_inReplyToRootMessageId :: "UUID option"
  nm_rawMessage :: "jval option"
  nm_metadata :: "obj option"
  nm_sourceType :: string

text \<open>A stored message row; dates are epoch milliseconds.\<close>

record CentralRootMessage =
  crm_id :: "UUID option"
  crm_channelId :: UUID
  crm_authorId :: UUID
  crm_content :: string
  crm_rawMessage :: "jval option"
  crm_sourceType :: "string option"
  crm_sourceId :: "string option"
  crm_metadata :: "obj option"
  crm_inReplyToRootMessageId :: "UUID option"
  crm_createdAt :: int
  crm_updatedAt :: int

text \<open>\<open>messageForBus\<close>, the payload of \<open>new_message\<close> and the body of the 201 response.\<close>

record MessageService =
  ms_id :: UUID
  ms_channel_id :: UUID
  ms_server_id :: UUID
  ms_author_id :: UUID
  ms_content :: string
  ms_created_at :: int
  ms_source_type :: "string option"
  ms_raw_message :: "jval option"
  ms_metadata :: "obj option"
  ms_author_display_name :: "jval option"
  ms_in_reply_to_message_id :: "UUID option"
  ms_source_id :: "string option"

record MessageBroadcast =
  mb_senderId :: UUID
  mb_senderName :: jval
  mb_text :: string
  mb_roomId :: UUID
  mb_serverId :: UUID
  mb_createdAt :: int
  mb_source :: "string option"
  mb_id :: UUID

text \<open>One element of \<open>messagesForGui\<close>: the row, two timestamps and the rebuilt metadata.\<close>

record GuiMessage =
  gm_row :: CentralRootMessage
  gm_created_at :: int
  gm_updated_at :: int
  gm_metadata :: obj

record MulterFile =
  mf_mimetype :: string
  mf_filename :: "string option"
  mf_originalname :: string
  mf_size :: nat

record UploadInfo =
  up_url :: string
  up_type :: string
  up_filename :: string
  up_originalName :: string
  up_size :: nat

datatype response_body =
    ErrorBody string
  | MessageBody MessageService
  | MessagesBody "GuiMessage list"
  | UploadBody UploadInfo

record HttpResponse =
  status :: nat
  body :: response_body

text \<open>
  What a route handler does besides answering: the writes to the central store, the
  events put on the internal bus and the events sent to a socket room.
\<close>

datatype server_effect =
    CreateChannel ChannelData "UUID list"
  | CreateMessage NewRootMessageData
  | BusEmit string MessageService
  | SocketEmit UUID string MessageBroadcast

text \<open>
  The \<open>AgentServer\<close> instance is external to the router. Its store has state \<open>'d\<close>; reads
  return a value or throw, writes also return the new state. \<open>getChannelDetails\<close> answers
  whether a channel was found; \<open>socketIO\<close> says whether a socket server is attached.
\<close>

record 'd AgentServer =
  getChannelDetails :: "UUID \<Rightarrow> 'd \<Rightarrow> error + bool"
  getServers :: "'d \<Rightarrow> error + MessageServer list"
  createChannel :: "ChannelData \<Rightarrow> UUID list \<Rightarrow> 'd \<Rightarrow> (error + unit) \<times> 'd"
  createMessage :: "NewRootMessageData \<Rightarrow> 'd \<Rightarrow> (error + CentralRootMessage) \<times> 'd"
  getMessagesForChannel ::
    "UUID \<Rightarrow> int option \<Rightarrow> int option \<Rightarrow> 'd \<Rightarrow> error + CentralRootMessage list"
  socketIO :: bool

text \<open>\<open>validateUuid\<close> of the core package is a parameter; applied to a body field.\<close>

fun validateUuidS :: "(string \<Rightarrow> UUID option) \<Rightarrow> string option \<Rightarrow> UUID option" where
  "validateUuidS validateUuid None = None"
| "validateUuidS validateUuid (Some v) = validateUuid v"

fun validateUuidJ :: "(string \<Rightarrow> UUID option) \<Rightarrow> jval option \<Rightarrow> UUID option" where
  "validateUuidJ validateUuid (Some (JStr v)) = validateUuid v"
| "validateUuidJ validateUuid _ = None"

section \<open>POST /central-channels/:channelId/messages\<close>

definition isDmChannel :: "obj option \<Rightarrow> bool" where
  "isDmChannel metadata \<longleftrightarrow>
     truthy (getprop metadata ''isDm'')
     \<or> getprop metadata ''channelType'' = Some (JStr ChannelType_DM)
     \<or> getprop metadata ''channel_type'' = Some (JStr ChannelType_DM)"

text \<open>\<open>channelData\<close>; the request's own metadata keys override the four generated ones.\<close>

definition channelDataFor :: "string \<Rightarrow> UUID \<Rightarrow> PostMessageRequest \<Rightarrow> ChannelData" where
  "channelDataFor now channelIdParam req =
     (let metadata = body_metadata req; dm = isDmChannel metadata
      in \<lparr> cd_id = channelIdParam,
           cd_messageServerId = the (body_server_id req),
           cd_name = (if dm then ''DM '' @ substring0 channelIdParam 8
                      else ''Chat '' @ substring0 channelIdParam 8),
           cd_type = (if dm then ChannelType_DM else ChannelType_GROUP),
           cd_sourceType = ''auto_created'',
           cd_metadata =
             (case metadata of None \<Rightarrow> [] | Some md \<Rightarrow> md) @
             [(''created_by'', JStr ''gui_auto_creation''),
              (''created_for_user'', JStr (the (body_author_id req))),
              (''created_at'', JStr now),
              (''channel_type'', JStr (if dm then ChannelType_DM else ChannelType_GROUP))] \<rparr>)"

text \<open>The author, then for a DM the target user when it is a valid identifier.\<close>

definition participantsFor ::
  "(string \<Rightarrow> UUID option) \<Rightarrow> PostMessageRequest \<Rightarrow> UUID list" where
  "participantsFor validateUuid req =
     (let metadata = body_metadata req;
          otherParticipant =
            js_or (getprop metadata ''targetUserId'') (getprop metadata ''recipientId'')
      in the (body_author_id req) #
         (if isDmChannel metadata \<and> truthy otherParticipant
             \<and> truthyS (validateUuidJ validateUuid otherParticipant)
          then (case otherParticipant of Some (JStr v) \<Rightarrow> [v] | _ \<Rightarrow> [])
          else []))"

definition newRootMessageDataFor ::
  "(string \<Rightarrow> UUID option) \<Rightarrow> UUID \<Rightarrow> PostMessageRequest \<Rightarrow> NewRootMessageData" where
  "newRootMessageDataFor validateUuid channelIdParam req =
     \<lparr> nm_channelId = channelIdParam,
       nm_authorId = the (body_author_id req),
       nm_content = the (body_content req),
       nm_inReplyToRootMessageId =
         (if truthyS (body_in_reply_to_message_id req)
          then validateUuid (the (body_in_reply_to_message_id req)) else None),
       nm_rawMessage = body_raw_message req,
       nm_metadata = body_metadata req,
       nm_sourceType = str_or (body_source_type req) ''eliza_gui'' \<rparr>"

definition messageForBusFor :: "PostMessageRequest \<Rightarrow> CentralRootMessage \<Rightarrow> MessageService" where
  "messageForBusFor req createdRootMessage =
     \<lparr> ms_id = the (crm_id createdRootMessage),
       ms_channel_id = crm_channelId createdRootMessage,
       ms_server_id = the (body_server_id req),
       ms_author_id = crm_authorId createdRootMessage,
       ms_content = crm_content createdRootMessage,
       ms_created_at = crm_createdAt createdRootMessage,
       ms_source_type = crm_sourceType createdRootMessage,
       ms_raw_message = crm_rawMessage createdRootMessage,
       ms_metadata = crm_metadata createdRootMessage,
       ms_author_display_name = getprop (body_metadata req) ''user_display_name'',
       ms_in_reply_to_message_id = crm_inReplyToRootMessageId createdRootMessage,
       ms_source_id = crm_sourceId createdRootMessage \<rparr>"

definition messageBroadcastFor ::
  "UUID \<Rightarrow> PostMessageRequest \<Rightarrow> MessageService \<Rightarrow> MessageBroadcast" where
  "messageBroadcastFor channelIdParam req messageForBus =
     \<lparr> mb_senderId = the (body_author_id req),
       mb_senderName = js_or_str (getprop (body_metadata req) ''user_display_name'') ''User'',
       mb_text = the (body_content req),
       mb_roomId = channelIdParam,
       mb_serverId = the (body_server_id req),
       mb_createdAt = ms_created_at messageForBus,
       mb_source = ms_source_type messageForBus,
       mb_id = ms_id messageForBus \<rparr>"

text \<open>
  The auto-creation block. \<open>Some r\<close> is an early \<open>return res.status(500)\<close>; \<open>None\<close> lets
  the handler go on. A throwing \<open>getServers\<close> or \<open>createChannel\<close> lands in the inner
  \<open>catch\<close> clause.
\<close>

definition autoCreateChannel ::
  "'d AgentServer \<Rightarrow> (string \<Rightarrow> UUID option) \<Rightarrow> string \<Rightarrow> UUID \<Rightarrow> PostMessageRequest \<Rightarrow> 'd \<Rightarrow>
     HttpResponse option \<times> server_effect list \<times> 'd" where
  "autoCreateChannel srv validateUuid now channelIdParam req d =
     (case getServers srv d of
        Inl createError \<Rightarrow>
          (Some \<lparr> status = 500,
                   body = ErrorBody (''Failed to create channel: '' @ error_message createError) \<rparr>,
           [], d)
      | Inr servers \<Rightarrow>
          if the (body_server_id req) \<notin> set (map srv_id servers)
          then (Some \<lparr> status = 500,
                        body = ErrorBody (''Server '' @ the (body_server_id req)
                                            @ '' does not exist'') \<rparr>,
                [], d)
          else
            (case createChannel srv (channelDataFor now channelIdParam req)
                    (participantsFor validateUuid req) d of
               (Inl createError, d') \<Rightarrow>
                 (Some \<lparr> status = 500,
                          body = ErrorBody (''Failed to create channel: ''
                                              @ error_message createError) \<rparr>,
                  [CreateChannel (channelDataFor now channelIdParam req)
                     (participantsFor validateUuid req)], d')
             | (Inr _, d') \<Rightarrow>
                 (None,
                  [CreateChannel (channelDataFor now channelIdParam req)
                     (participantsFor validateUuid req)], d')))"

text \<open>Message creation and fan-out, after the channel is known to exist.\<close>

definition createAndPublish ::
  "'d AgentServer \<Rightarrow> (string \<Rightarrow> UUID option) \<Rightarrow> UUID \<Rightarrow> PostMessageRequest \<Rightarrow> 'd \<Rightarrow>
     HttpResponse \<times> server_effect list \<times> 'd" where
  "createAndPublish srv validateUuid channelIdParam req d =
     (case createMessage srv (newRootMessageDataFor validateUuid channelIdParam req) d of
        (Inl error, d') \<Rightarrow>
          (\<lparr> status = 500, body = ErrorBody ''Failed to process message'' \<rparr>,
           [CreateMessage (newRootMessageDataFor validateUuid channelIdParam req)], d')
      | (Inr createdRootMessage, d') \<Rightarrow>
          if \<not> truthyS (crm_id createdRootMessage)
          then (\<lparr> status = 500, body = ErrorBody ''Failed to process message'' \<rparr>,
                [CreateMessage (newRootMessageDataFor validateUuid channelIdParam req)], d')
          else
            (let messageForBus = messageForBusFor req createdRootMessage
             in (\<lparr> status = 201, body = MessageBody messageForBus \<rparr>,
                 [CreateMessage (newRootMessageDataFor validateUuid channelIdParam req),
                  BusEmit ''new_message'' messageForBus] @
                 (if socketIO srv
                  then [SocketEmit channelIdParam ''messageBroadcast''
                          (messageBroadcastFor channelIdParam req messageForBus)]
                  else []),
                 d')))"

text \<open>
  The route handler. \<open>now\<close> is \<open>new Date().toISOString()\<close>. The result is the response,
  the effects in order, and the store afterwards.
\<close>

definition postCentralChannelMessage ::
  "'d AgentServer \<Rightarrow> (string \<Rightarrow> UUID option) \<Rightarrow> string \<Rightarrow> PostMessageRequest \<Rightarrow> 'd \<Rightarrow>
     HttpResponse \<times> server_effect list \<times> 'd" where
  "postCentralChannelMessage srv validateUuid now req d =
     (let channelIdParam = validateUuid (req_channelId req);
          isValidServerId =
            (body_server_id req = Some DEFAULT_SERVER_ID
             \<or> truthyS (validateUuidS validateUuid (body_server_id req)))
      in if \<not> truthyS channelIdParam
            \<or> \<not> truthyS (validateUuidS validateUuid (body_author_id req))
            \<or> \<not> truthyS (body_content req) \<or> \<not> isValidServerId
         then (\<lparr> status = 400,
                  body = ErrorBody
                    ''Missing required fields: channelId, server_id, author_id, content'' \<rparr>,
               [], d)
         else
           (let channelExists =
                  (case getChannelDetails srv (the channelIdParam) d of
                     Inl error \<Rightarrow> False
                   | Inr existingChannel \<Rightarrow> existingChannel)
            in if \<not> channelExists
               then (case autoCreateChannel srv validateUuid now (the channelIdParam) req d of
                       (Some response, effects, d') \<Rightarrow> (response, effects, d')
                     | (None, effects, d') \<Rightarrow>
                         (case createAndPublish srv validateUuid (the channelIdParam) req d' of
                            (response, effects', d'') \<Rightarrow> (response, effects @ effects', d'')))
               else createAndPublish srv validateUuid (the channelIdParam) req d))"

section \<open>GET /central-channels/:channelId/messages\<close>













section \<open>The client's view of a fetched message\<close>




section \<open>POST /channels/:channelId/upload-media\<close>

text \<open>
  The handler behind the rate limiters and the multer middleware. \<open>ALLOWED_MEDIA_MIME_TYPES\<close>
  is a parameter; \<open>file\<close> is \<open>req.file\<close>.
\<close>

definition uploadMedia ::
  "(string \<Rightarrow> UUID option) \<Rightarrow> string list \<Rightarrow> string \<Rightarrow> MulterFile option \<Rightarrow> HttpResponse" where
  "uploadMedia validateUuid ALLOWED_MEDIA_MIME_TYPES channelIdParam file =
     (let channelId = validateUuid channelIdParam
      in if \<not> truthyS channelId
         then \<lparr> status = 400, body = ErrorBody ''Invalid channelId format'' \<rparr>
         else
           (case file of
              None \<Rightarrow> \<lparr> status = 400, body = ErrorBody ''No media file provided'' \<rparr>
            | Some mediaFile \<Rightarrow>
                if mf_mimetype mediaFile \<notin> set ALLOWED_MEDIA_MIME_TYPES
                then \<lparr> status = 400,
                       body = ErrorBody (''Invalid file type: '' @ mf_mimetype mediaFile) \<rparr>
                else if \<not> truthyS (mf_filename mediaFile)
                        \<or> str_includes (the (mf_filename mediaFile)) ''..''
                        \<or> str_includes (the (mf_filename mediaFile)) ''/''
                then \<lparr> status = 400, body = ErrorBody ''Invalid filename detected'' \<rparr>
                else if mf_size mediaFile > 50 * 1024 * 1024
                then \<lparr> status = 400, body = ErrorBody ''File too large'' \<rparr>
                else
                  \<lparr> status = 200,
                    body = UploadBody
                      \<lparr> up_url = ''/media/uploads/channels/'' @ the channelId @ ''/''
                                   @ the (mf_filename mediaFile),
                        up_type = mf_mimetype mediaFile,
                        up_filename = the (mf_filename mediaFile),
                        up_originalName = mf_originalname mediaFile,
                        up_size = mf_size mediaFile \<rparr> \<rparr>))"

section \<open>The central store\<close>

text \<open>
  Modelled from the spec: the store behind \<open>AgentServer\<close> (the server class and the
  database adapter are not among the sources). A Central Message is "created by the HTTP
  layer on POST, immutable once created except for deletion"; a Channel is "created lazily
  on first message if absent", with "participants tracked in a separate participant list,
  keyed by channel id"; fetching is "paged by limit and before timestamp". Rows are kept
  newest first. The id of a new row (a fresh random identifier) and its creation time are
  supplied from outside.
\<close>

record central_db =
  db_servers :: "MessageServer list"
  db_channels :: "ChannelData list"
  db_participants :: "(UUID \<times> UUID) list"
  db_messages :: "CentralRootMessage list"

text \<open>Modelled from the spec: channel lookup by id in the store (\<open>getChannelDetails\<close>).\<close>

definition db_getChannelDetails :: "UUID \<Rightarrow> central_db \<Rightarrow> error + bool" where
  "db_getChannelDetails channelId d = Inr (channelId \<in> set (map cd_id (db_channels d)))"

text \<open>Modelled from the spec: the list of message servers (\<open>getServers\<close>).\<close>

definition db_getServers :: "central_db \<Rightarrow> error + MessageServer list" where
  "db_getServers d = Inr (db_servers d)"

text \<open>
  Modelled from the spec: \<open>createChannel\<close> adds the channel and its participants, keyed
  by the channel id.
\<close>

definition db_createChannel ::
  "ChannelData \<Rightarrow> UUID list \<Rightarrow> central_db \<Rightarrow> (error + unit) \<times> central_db" where
  "db_createChannel data participants d =
     (Inr (),
      d\<lparr> db_channels := data # db_channels d,
         db_participants := map (Pair (cd_id data)) participants @ db_participants d \<rparr>)"

text \<open>
  Modelled from the spec: \<open>createMessage\<close> stores the submitted fields unchanged in a new
  row with the given id and creation time.
\<close>

definition db_createMessage ::
  "UUID \<Rightarrow> int \<Rightarrow> NewRootMessageData \<Rightarrow> central_db \<Rightarrow>
     (error + CentralRootMessage) \<times> central_db" where
  "db_createMessage new_id clock data d =
     (let row = \<lparr> crm_id = Some new_id,
                   crm_channelId = nm_channelId data,
                   crm_authorId = nm_authorId data,
                   crm_content = nm_content data,
                   crm_rawMessage = nm_rawMessage data,
                   crm_sourceType = Some (nm_sourceType data),
                   crm_sourceId = None,
                   crm_metadata = nm_metadata data,
                   crm_inReplyToRootMessageId = nm_inReplyToRootMessageId data,
                   crm_createdAt = clock,
                   crm_updatedAt = clock \<rparr>
      in (Inr row, d\<lparr> db_messages := row # db_messages d \<rparr>))"

text \<open>
  Modelled from the spec: \<open>getMessagesForChannel\<close> returns the rows of the channel created
  before the \<open>before\<close> timestamp when one is given, at most \<open>limit\<close> of them.
\<close>

definition db_getMessagesForChannel ::
  "UUID \<Rightarrow> int option \<Rightarrow> int option \<Rightarrow> central_db \<Rightarrow> error + CentralRootMessage list" where
  "db_getMessagesForChannel channelId limit beforeDate d =
     (let rows = filter (\<lambda>row. crm_channelId row = channelId
                           \<and> (case beforeDate of None \<Rightarrow> True
                                | Some b \<Rightarrow> crm_createdAt row < b))
                   (db_messages d)
      in Inr (case limit of None \<Rightarrow> rows | Some n \<Rightarrow> take (nat n) rows))"

text \<open>Modelled from the spec: the store's operations as an \<open>AgentServer\<close>.\<close>

definition db_server :: "UUID \<Rightarrow> int \<Rightarrow> bool \<Rightarrow> central_db AgentServer" where
  "db_server new_id clock sockets =
     \<lparr> getChannelDetails = db_getChannelDetails,
       getServers = db_getServers,
       createChannel = db_createChannel,
       createMessage = db_createMessage new_id clock,
       getMessagesForChannel = db_getMessagesForChannel,
       socketIO = sockets \<rparr>"


section \<open>Predicates on traces and on the runtime\<close>

fun is_emit :: "call \<Rightarrow> bool" where
  "is_emit (EmitMessageReceived p) = True"
| "is_emit _ = False"

fun is_createMemory :: "call \<Rightarrow> bool" where
  "is_createMemory (CreateMemory mem) = True"
| "is_createMemory _ = False"

text \<open>World, room and entity creation.\<close>

fun is_reconciliation :: "call \<Rightarrow> bool" where
  "is_reconciliation (EnsureWorldExists w) = True"
| "is_reconciliation (EnsureRoomExists r) = True"
| "is_reconciliation (CreateEntity e) = True"
| "is_reconciliation _ = False"

fun is_postSubmit :: "call \<Rightarrow> bool" where
  "is_postSubmit (PostSubmit p) = True"
| "is_postSubmit _ = False"







text \<open>
  The two conditions under which an agent reply is not forwarded: its actions contain
  \<open>IGNORE\<close>; its text is missing, empty or white space only.
\<close>

definition reply_ignored :: "Content \<Rightarrow> bool" where
  "reply_ignored content \<longleftrightarrow>
     (case c_actions content of None \<Rightarrow> False | Some actions \<Rightarrow> ''IGNORE'' \<in> set actions)"

definition reply_blank :: "Content \<Rightarrow> bool" where
  "reply_blank content \<longleftrightarrow>
     (case c_text content of None \<Rightarrow> True | Some text \<Rightarrow> list_all is_js_whitespace text)"

section \<open>Sample values\<close>

text \<open>
  A runtime over a list of stored Memories. The first argument says whether a
  \<open>MESSAGE_RECEIVED\<close> listener that stores the received Memory is registered; the second is
  the participant list the central server answers with.
\<close>

definition sample_room :: Room where
  "sample_room =
     \<lparr> room_id = ''c-1:a-1'', room_name = JStr ''Channel c-1'', room_agentId = ''a-1'',
       room_worldId = ''s-1:a-1'', room_channelId = Some ''c-1'', room_serverId = Some ''s-1'',
       room_source = ''eliza_gui'', room_type = Some (JStr ''GROUP''), room_metadata = [] \<rparr>"

definition sample_world :: World where
  "sample_world =
     \<lparr> world_id = ''s-1:a-1'', world_name = JStr ''Server s-1'', world_agentId = ''a-1'',
       world_serverId = Some ''s-1'', world_metadata = [] \<rparr>"

definition sample_runtime :: "bool \<Rightarrow> UUID list \<Rightarrow> Memory list IAgentRuntime" where
  "sample_runtime listener participants =
     \<lparr> agentId = ''a-1'',
       characterName = ''Eliza'',
       createUniqueUuid = (\<lambda>base. base @ '':a-1''),
       fetch_participants =
         (\<lambda>ch s. (Inr \<lparr> pr_ok = True, pr_success = True, pr_data = Some participants \<rparr>, s)),
       fetch_agent_servers =
         (\<lambda>a s. (Inr \<lparr> sr_ok = True, sr_success = True, sr_servers = Some [''s-1''] \<rparr>, s)),
       ensureWorldExists = (\<lambda>w s. (Inr (), s)),
       ensureRoomExists = (\<lambda>r s. (Inr (), s)),
       getEntityById = (\<lambda>i s. (Inr None, s)),
       createEntity = (\<lambda>e s. (Inr True, s)),
       getMemoryById = (\<lambda>i s. (Inr (find (\<lambda>mem. mem_id mem = i) s), s)),
       createMemory = (\<lambda>mem s. (Inr (mem_id mem), mem # s)),
       emitMessageReceived = (\<lambda>p s. (Inr (), if listener then ev_message p # s else s)),
       getRoom = (\<lambda>i s. (Inr (if i = ''c-1:a-1'' then Some sample_room else None), s)),
       getWorld = (\<lambda>i s. (Inr (if i = ''s-1:a-1'' then Some sample_world else None), s)),
       fetch_submit = (\<lambda>p s. (Inr True, s)) \<rparr>"

text \<open>The same runtime with a memory store that rejects every lookup.\<close>

definition failing_lookup_runtime :: "Memory list IAgentRuntime" where
  "failing_lookup_runtime =
     (sample_runtime True [''u-1'', ''a-1''])
       \<lparr> getMemoryById := (\<lambda>i s. (Inl (Error ''connection terminated''), s)) \<rparr>"

definition sample_reply :: Content where
  "sample_reply =
     \<lparr> c_text = Some ''hello'', c_thought = None, c_actions = Some [''REPLY''],
       c_source = None, c_attachments = None, c_inReplyTo = None \<rparr>"

text \<open>
  A validator for the examples: 36 characters, hyphens at positions 8, 13, 18 and 23,
  hexadecimal digits elsewhere.
\<close>

definition is_hex :: "char \<Rightarrow> bool" where
  "is_hex c \<longleftrightarrow> c \<in> set ''0123456789abcdefABCDEF''"

definition sample_validateUuid :: "string \<Rightarrow> UUID option" where
  "sample_validateUuid v =
     (if length v = 36
         \<and> list_all (\<lambda>i. if i \<in> {8, 13, 18, 23} then v ! i = CHR ''-'' else is_hex (v ! i))
              [0..<36]
      then Some v else None)"

definition sample_request :: PostMessageRequest where
  "sample_request =
     \<lparr> req_channelId = ''11111111-1111-1111-1111-111111111111'',
       body_author_id = Some ''22222222-2222-2222-2222-222222222222'',
       body_content = Some ''hi'',
       body_in_reply_to_message_id = None,
       body_server_id = Some ''00000000-0000-0000-0000-000000000000'',
       body_raw_message = None,
       body_metadata = None,
       body_source_type = None \<rparr>"

definition sample_db :: central_db where
  "sample_db =
     \<lparr> db_servers = [\<lparr> srv_id = ''00000000-0000-0000-0000-000000000000'',
                        srv_name = ''Default Server'' \<rparr>],
       db_channels = [], db_participants = [], db_messages = [] \<rparr>"

definition sample_server :: "central_db AgentServer" where
  "sample_server = db_server ''33333333-3333-3333-3333-333333333333'' 1700000000000 True"


definition sample_file :: MulterFile where
  "sample_file =
     \<lparr> mf_mimetype = ''image/png'', mf_filename = Some ''1700000000000-42-cat.png'',
       mf_originalname = ''cat.png'', mf_size = 2048 \<rparr>"




definition sample_service :: MessageBusService where
  "sample_service = \<lparr> subscribedServers = {''s-1''} \<rparr>"

definition sample_message :: MessageServiceMessage where
  "sample_message =
     \<lparr> msg_id = ''m-1'', msg_channel_id = ''c-1'', msg_server_id = ''s-1'',
       msg_author_id = ''u-1'', msg_author_display_name = Some ''Ann'',
       msg_content = ''hi'', msg_raw_message = None, msg_source_id = None,
       msg_source_type = Some ''eliza_gui'', msg_in_reply_to_message_id = None,
       msg_created_at = 1700000000000, msg_metadata = None \<rparr>"

section \<open>Running the effect model\<close>

lemma io_simps [simp]:
  "io_return x w = (Inr x, w)"
  "io_throw e w = (Inl e, w)"
  "io_bind m f w = (case m w of (Inl e, w') \<Rightarrow> (Inl e, w') | (Inr x, w') \<Rightarrow> f x w')"
  "io_catch m h w = (case m w of (Inl e, w') \<Rightarrow> h e w' | (Inr x, w') \<Rightarrow> (Inr x, w'))"
  "invoke c g (s, tr) = (case g s of (r, s') \<Rightarrow> (r, (s', tr @ [c])))"
  by (simp_all add: io_return_def io_throw_def io_bind_def io_catch_def invoke_def)


lemma str_includes_iff_sublist: "str_includes xs ys \<longleftrightarrow> sublist ys xs"
  by (induction xs) (auto simp: sublist_Cons_right)

lemma getChannelParticipants_run:
  "getChannelParticipants rt ch (s, tr) =
     (Inr (case fst (fetch_participants rt ch s) of
             Inl e \<Rightarrow> []
           | Inr r \<Rightarrow> if pr_ok r \<and> pr_success r \<and> pr_data r \<noteq> None
                      then the (pr_data r) else []),
      (snd (fetch_participants rt ch s), tr @ [FetchParticipants ch]))"
  by (auto simp add: getChannelParticipants_def split: prod.splits sum.splits)

section \<open>Properties of the subscribed-server cache\<close>

text \<open>
  C10. A \<open>server_agent_update\<close> event addressed to another agent leaves \<open>subscribedServers\<close>
  unchanged. For the service's own agent, \<open>agent_added_to_server\<close> adds exactly the event's
  \<open>serverId\<close>, \<open>agent_removed_from_server\<close> removes exactly that \<open>serverId\<close>, and every other
  event type leaves the set unchanged.
\<close>

theorem handleServerAgentUpdate_subscribedServers:
  "(upd_agentId data \<noteq> agentId rt \<longrightarrow>
      subscribedServers (handleServerAgentUpdate rt svc data) = subscribedServers svc) \<and>
   (upd_agentId data = agentId rt \<longrightarrow> upd_type data = ''agent_added_to_server'' \<longrightarrow>
      subscribedServers (handleServerAgentUpdate rt svc data) =
        subscribedServers svc \<union> {upd_serverId data}) \<and>
   (upd_agentId data = agentId rt \<longrightarrow> upd_type data = ''agent_removed_from_server'' \<longrightarrow>
      subscribedServers (handleServerAgentUpdate rt svc data) =
        subscribedServers svc - {upd_serverId data}) \<and>
   (upd_agentId data = agentId rt \<longrightarrow> upd_type data \<noteq> ''agent_added_to_server'' \<longrightarrow>
      upd_type data \<noteq> ''agent_removed_from_server'' \<longrightarrow>
      subscribedServers (handleServerAgentUpdate rt svc data) = subscribedServers svc)"
  by (simp add: handleServerAgentUpdate_def)

theorem handleServerAgentUpdate_subscribedServers_witness:
  "subscribedServers (handleServerAgentUpdate (sample_runtime True []) sample_service
      \<lparr> upd_agentId = ''a-2'', upd_type = ''agent_added_to_server'', upd_serverId = ''s-2'' \<rparr>)
     = {''s-1''} \<and>
   subscribedServers (handleServerAgentUpdate (sample_runtime True []) sample_service
      \<lparr> upd_agentId = ''a-1'', upd_type = ''agent_added_to_server'', upd_serverId = ''s-2'' \<rparr>)
     = {''s-1'', ''s-2''} \<and>
   subscribedServers (handleServerAgentUpdate (sample_runtime True []) sample_service
      \<lparr> upd_agentId = ''a-1'', upd_type = ''agent_removed_from_server'', upd_serverId = ''s-1'' \<rparr>)
     = {} \<and>
   subscribedServers (handleServerAgentUpdate (sample_runtime True []) sample_service
      \<lparr> upd_agentId = ''a-1'', upd_type = ''agent_renamed'', upd_serverId = ''s-1'' \<rparr>)
     = {''s-1''}"
  using
    handleServerAgentUpdate_subscribedServers [of
      "\<lparr> upd_agentId = ''a-2'', upd_type = ''agent_added_to_server'', upd_serverId = ''s-2'' \<rparr>"
      "sample_runtime True []" sample_service]
    handleServerAgentUpdate_subscribedServers [of
      "\<lparr> upd_agentId = ''a-1'', upd_type = ''agent_added_to_server'', upd_serverId = ''s-2'' \<rparr>"
      "sample_runtime True []" sample_service]
    handleServerAgentUpdate_subscribedServers [of
      "\<lparr> upd_agentId = ''a-1'', upd_type = ''agent_removed_from_server'', upd_serverId = ''s-1'' \<rparr>"
      "sample_runtime True []" sample_service]
    handleServerAgentUpdate_subscribedServers [of
      "\<lparr> upd_agentId = ''a-1'', upd_type = ''agent_renamed'', upd_serverId = ''s-1'' \<rparr>"
      "sample_runtime True []" sample_service]
  by (simp add: sample_runtime_def sample_service_def insert_commute)

section \<open>Properties of handleIncomingMessage: the three filters\<close>

text \<open>
  C3. When the participant list obtained for the message's channel does not contain the
  agent's id, \<open>handleIncomingMessage\<close> makes no call besides the participants request: no
  \<open>ensureWorldExists\<close>, \<open>ensureRoomExists\<close> or \<open>createEntity\<close> call is made.
\<close>

theorem non_participant_stops_before_reconciliation:
  assumes "fst (getChannelParticipants rt (msg_channel_id m) (s, [])) = Inr participants"
      and "agentId rt \<notin> set participants"
  shows "calls_of (handleIncomingMessage rt svc m) s = [FetchParticipants (msg_channel_id m)]
       \<and> filter is_reconciliation (calls_of (handleIncomingMessage rt svc m) s) = []"
  using assms
  by (simp add: handleIncomingMessage_def calls_of_def getChannelParticipants_run)

theorem non_participant_stops_before_reconciliation_witness:
  "fst (getChannelParticipants (sample_runtime True [''u-1'', ''u-2''])
          (msg_channel_id sample_message) ([], [])) = Inr [''u-1'', ''u-2'']
   \<and> agentId (sample_runtime True [''u-1'', ''u-2'']) \<notin> set [''u-1'', ''u-2'']
   \<and> calls_of (handleIncomingMessage (sample_runtime True [''u-1'', ''u-2'']) sample_service
        sample_message) [] = [FetchParticipants ''c-1'']
   \<and> filter is_reconciliation
        (calls_of (handleIncomingMessage (sample_runtime True [''u-1'', ''u-2''])
           sample_service sample_message) []) = []"
proof -
  have h1: "fst (getChannelParticipants (sample_runtime True [''u-1'', ''u-2''])
          (msg_channel_id sample_message) ([], [])) = Inr [''u-1'', ''u-2'']"
    by (simp add: getChannelParticipants_run sample_runtime_def)
  have h2: "agentId (sample_runtime True [''u-1'', ''u-2'']) \<notin> set [''u-1'', ''u-2'']"
    by (simp add: sample_runtime_def)
  from non_participant_stops_before_reconciliation [OF h1 h2, of sample_service] h1 h2
  show ?thesis by (simp add: sample_message_def)
qed

text \<open>
  C4. When the message's \<open>server_id\<close> is not in \<open>subscribedServers\<close>, the message is
  dropped: the only call made is the participants request, so \<open>createMemory\<close> is not called
  and nothing is emitted.
\<close>

theorem unsubscribed_server_dropped:
  assumes "msg_server_id m \<notin> subscribedServers svc"
  shows "calls_of (handleIncomingMessage rt svc m) s = [FetchParticipants (msg_channel_id m)]
       \<and> filter is_createMemory (calls_of (handleIncomingMessage rt svc m) s) = []
       \<and> filter is_emit (calls_of (handleIncomingMessage rt svc m) s) = []"
  using assms
  by (simp add: handleIncomingMessage_def calls_of_def getChannelParticipants_run
        validateServerSubscription_def)

theorem unsubscribed_server_dropped_witness:
  "msg_server_id sample_message \<notin> subscribedServers \<lparr> subscribedServers = {''s-2''} \<rparr>
   \<and> calls_of (handleIncomingMessage (sample_runtime True [''u-1'', ''a-1''])
        \<lparr> subscribedServers = {''s-2''} \<rparr> sample_message) [] = [FetchParticipants ''c-1'']
   \<and> filter is_createMemory
        (calls_of (handleIncomingMessage (sample_runtime True [''u-1'', ''a-1''])
           \<lparr> subscribedServers = {''s-2''} \<rparr> sample_message) []) = []
   \<and> filter is_emit
        (calls_of (handleIncomingMessage (sample_runtime True [''u-1'', ''a-1''])
           \<lparr> subscribedServers = {''s-2''} \<rparr> sample_message) []) = []"
proof -
  have h: "msg_server_id sample_message \<notin> subscribedServers \<lparr> subscribedServers = {''s-2''} \<rparr>"
    by (simp add: sample_message_def)
  from unsubscribed_server_dropped [OF h, of "sample_runtime True [''u-1'', ''a-1'']" "[]"] h
  show ?thesis by (simp add: sample_message_def)
qed

text \<open>
  C2. When the message's \<open>author_id\<close> is the agent's own id, the only call made is the
  participants request: no Memory is created and no \<open>MESSAGE_RECEIVED\<close> event is emitted.
\<close>

theorem self_message_dropped:
  assumes "msg_author_id m = agentId rt"
  shows "calls_of (handleIncomingMessage rt svc m) s = [FetchParticipants (msg_channel_id m)]
       \<and> filter is_createMemory (calls_of (handleIncomingMessage rt svc m) s) = []
       \<and> filter is_emit (calls_of (handleIncomingMessage rt svc m) s) = []"
  using assms
  by (simp add: handleIncomingMessage_def calls_of_def getChannelParticipants_run
        validateServerSubscription_def validateNotSelfMessage_def)

theorem self_message_dropped_witness:
  "msg_author_id (sample_message\<lparr>msg_author_id := ''a-1''\<rparr>)
     = agentId (sample_runtime True [''u-1'', ''a-1''])
   \<and> calls_of (handleIncomingMessage (sample_runtime True [''u-1'', ''a-1'']) sample_service
        (sample_message\<lparr>msg_author_id := ''a-1''\<rparr>)) [] = [FetchParticipants ''c-1'']
   \<and> filter is_createMemory
        (calls_of (handleIncomingMessage (sample_runtime True [''u-1'', ''a-1''])
           sample_service (sample_message\<lparr>msg_author_id := ''a-1''\<rparr>)) []) = []
   \<and> filter is_emit
        (calls_of (handleIncomingMessage (sample_runtime True [''u-1'', ''a-1''])
           sample_service (sample_message\<lparr>msg_author_id := ''a-1''\<rparr>)) []) = []"
proof -
  have h: "msg_author_id (sample_message\<lparr>msg_author_id := ''a-1''\<rparr>)
     = agentId (sample_runtime True [''u-1'', ''a-1''])"
    by (simp add: sample_runtime_def)
  from self_message_dropped [OF h, of sample_service "[]"] h
  show ?thesis by (simp add: sample_message_def)
qed

section \<open>Properties of handleIncomingMessage: duplicate delivery\<close>























section \<open>Properties of sendAgentResponseToBus\<close>

lemma trim_empty_iff: "trim s = [] \<longleftrightarrow> (\<forall>c\<in>set s. is_js_whitespace c)"
proof -
  have "trim s = [] \<longleftrightarrow> (\<forall>x\<in>set (dropWhile is_js_whitespace s). is_js_whitespace x)"
    by (simp add: trim_def)
  also have "\<dots> \<longleftrightarrow> dropWhile is_js_whitespace s = []"
    using hd_dropWhile [of is_js_whitespace s] by (metis list.set_sel(1) empty_iff list.set(1))
  also have "\<dots> \<longleftrightarrow> (\<forall>c\<in>set s. is_js_whitespace c)"
    by simp
  finally show ?thesis .
qed

lemma filtered_iff:
  "(c_actions content \<noteq> None \<and> ''IGNORE'' \<in> set (the (c_actions content)))
     = reply_ignored content"
  "(\<not> truthyS (c_text content) \<or> trim (the (c_text content)) = []) = reply_blank content"
  by (auto simp: reply_ignored_def reply_blank_def trim_empty_iff list_all_iff
      split: option.splits)

lemma send_filtered:
  assumes "reply_ignored content \<or> reply_blank content"
  shows "calls_of (sendAgentResponseToBus rt rid wid content irm om) s = []"
  using assms unfolding sendAgentResponseToBus_def filtered_iff calls_of_def
  by auto

lemma lookup_reply_run:
  assumes "\<not> truthyS irm \<or> (\<exists>found s3. getMemoryById rt (the irm) s2 = (Inr found, s3))"
  shows "\<exists>central s3 cs.
      (if truthyS irm
       then io_bind (invoke (GetMemoryById (the irm)) (getMemoryById rt (the irm)))
              (\<lambda>originalAgentMemory.
                 let sourceId =
                       Option.bind (Option.bind originalAgentMemory mem_metadata) mm_sourceId
                 in io_return (if truthyS sourceId then sourceId else None))
       else io_return None) (s2, tr) = (Inr central, (s3, tr @ cs))
      \<and> filter is_postSubmit cs = []"
  using assms by (auto simp: Let_def)

lemma send_posts:
  assumes nf: "\<not> reply_ignored content" "\<not> reply_blank content"
    and room: "getRoom rt rid s = (Inr (Some room), s1)" "truthyS (room_channelId room)"
    and world: "getWorld rt wid s1 = (Inr (Some world), s2)" "truthyS (world_serverId world)"
    and mem: "\<not> truthyS irm \<or> (\<exists>found s3. getMemoryById rt (the irm) s2 = (Inr found, s3))"
  shows "\<exists>p cs. calls_of (sendAgentResponseToBus rt rid wid content irm om) s
                   = cs @ [PostSubmit p]
           \<and> filter is_postSubmit cs = []
           \<and> sp_channel_id p = the (room_channelId room)
           \<and> sp_server_id p = the (world_serverId world)
           \<and> sp_content p = the (c_text content)
           \<and> sp_author_id p = agentId rt"
proof -
  from lookup_reply_run [OF mem, of "[GetRoom rid, GetWorld wid]"]
  obtain central s3 cs where l:
      "(if truthyS irm
        then io_bind (invoke (GetMemoryById (the irm)) (getMemoryById rt (the irm)))
               (\<lambda>originalAgentMemory.
                  let sourceId =
                        Option.bind (Option.bind originalAgentMemory mem_metadata) mm_sourceId
                  in io_return (if truthyS sourceId then sourceId else None))
        else io_return None) (s2, [GetRoom rid, GetWorld wid])
       = (Inr central, (s3, [GetRoom rid, GetWorld wid] @ cs))"
     and cs: "filter is_postSubmit cs = []" by blast
  let ?p = "submitPayloadFor rt (the (room_channelId room)) (the (world_serverId world))
              content central om (Some room)"
  have "calls_of (sendAgentResponseToBus rt rid wid content irm om) s
          = ([GetRoom rid, GetWorld wid] @ cs) @ [PostSubmit ?p]"
    using nf room world l unfolding sendAgentResponseToBus_def filtered_iff calls_of_def
    by (simp add: Let_def split: prod.splits sum.splits)
  moreover have "filter is_postSubmit ([GetRoom rid, GetWorld wid] @ cs) = []"
    using cs by simp
  moreover have "sp_channel_id ?p = the (room_channelId room)"
      "sp_server_id ?p = the (world_serverId world)"
      "sp_content ?p = the (c_text content)" "sp_author_id ?p = agentId rt"
    by (simp_all add: submitPayloadFor_def Let_def)
  ultimately show ?thesis by blast
qed

lemma send_lookup_throws:
  assumes nf: "\<not> reply_ignored content" "\<not> reply_blank content"
    and room: "getRoom rt rid s = (Inr (Some room), s1)" "truthyS (room_channelId room)"
    and world: "getWorld rt wid s1 = (Inr (Some world), s2)" "truthyS (world_serverId world)"
    and mem: "truthyS irm" "getMemoryById rt (the irm) s2 = (Inl e, s3)"
  shows "calls_of (sendAgentResponseToBus rt rid wid content irm om) s
           = [GetRoom rid, GetWorld wid, GetMemoryById (the irm)]"
  using nf room world mem unfolding sendAgentResponseToBus_def filtered_iff calls_of_def
  by (simp add: Let_def)

text \<open>
  C5 (as amended). A reply whose actions contain \<open>IGNORE\<close>, or whose text is missing or
  white space only, causes no call at all, so no POST to the submit endpoint. Any other
  reply is POSTed exactly once, with the room's \<open>channelId\<close> and the world's \<open>serverId\<close>,
  provided \<open>getRoom\<close> and \<open>getWorld\<close> return a room and a world carrying those ids and the
  lookup of the original Memory, when a reply-to id is given, does not throw; when that
  lookup throws, nothing is POSTed.
\<close>

theorem sendAgentResponseToBus_posts_unless_filtered:
  "(reply_ignored content \<or> reply_blank content \<longrightarrow>
      calls_of (sendAgentResponseToBus rt rid wid content irm om) s = []) \<and>
   (\<not> reply_ignored content \<longrightarrow> \<not> reply_blank content \<longrightarrow>
    getRoom rt rid s = (Inr (Some room), s1) \<longrightarrow> truthyS (room_channelId room) \<longrightarrow>
    getWorld rt wid s1 = (Inr (Some world), s2) \<longrightarrow> truthyS (world_serverId world) \<longrightarrow>
    (\<not> truthyS irm \<or> (\<exists>found s3. getMemoryById rt (the irm) s2 = (Inr found, s3))) \<longrightarrow>
      (\<exists>p cs. calls_of (sendAgentResponseToBus rt rid wid content irm om) s
                 = cs @ [PostSubmit p]
             \<and> filter is_postSubmit cs = []
             \<and> sp_channel_id p = the (room_channelId room)
             \<and> sp_server_id p = the (world_serverId world)
             \<and> sp_content p = the (c_text content)
             \<and> sp_author_id p = agentId rt)) \<and>
   (\<not> reply_ignored content \<longrightarrow> \<not> reply_blank content \<longrightarrow>
    getRoom rt rid s = (Inr (Some room), s1) \<longrightarrow> truthyS (room_channelId room) \<longrightarrow>
    getWorld rt wid s1 = (Inr (Some world), s2) \<longrightarrow> truthyS (world_serverId world) \<longrightarrow>
    truthyS irm \<longrightarrow> getMemoryById rt (the irm) s2 = (Inl e, s3) \<longrightarrow>
      filter is_postSubmit (calls_of (sendAgentResponseToBus rt rid wid content irm om) s)
        = [])"
proof (intro conjI impI)
  assume "reply_ignored content \<or> reply_blank content"
  then show "calls_of (sendAgentResponseToBus rt rid wid content irm om) s = []"
    by (rule send_filtered)
next
  assume "\<not> reply_ignored content" "\<not> reply_blank content"
    "getRoom rt rid s = (Inr (Some room), s1)" "truthyS (room_channelId room)"
    "getWorld rt wid s1 = (Inr (Some world), s2)" "truthyS (world_serverId world)"
    "\<not> truthyS irm \<or> (\<exists>found s3. getMemoryById rt (the irm) s2 = (Inr found, s3))"
  then show "\<exists>p cs. calls_of (sendAgentResponseToBus rt rid wid content irm om) s
                 = cs @ [PostSubmit p]
             \<and> filter is_postSubmit cs = []
             \<and> sp_channel_id p = the (room_channelId room)
             \<and> sp_server_id p = the (world_serverId world)
             \<and> sp_content p = the (c_text content)
             \<and> sp_author_id p = agentId rt"
    by (rule send_posts)
next
  assume "\<not> reply_ignored content" "\<not> reply_blank content"
    "getRoom rt rid s = (Inr (Some room), s1)" "truthyS (room_channelId room)"
    "getWorld rt wid s1 = (Inr (Some world), s2)" "truthyS (world_serverId world)"
    "truthyS irm" "getMemoryById rt (the irm) s2 = (Inl e, s3)"
  then have "calls_of (sendAgentResponseToBus rt rid wid content irm om) s
           = [GetRoom rid, GetWorld wid, GetMemoryById (the irm)]"
    by (rule send_lookup_throws)
  then show "filter is_postSubmit
               (calls_of (sendAgentResponseToBus rt rid wid content irm om) s) = []"
    by simp
qed

lemmas send_defs = sendAgentResponseToBus_def calls_of_def sample_runtime_def
  failing_lookup_runtime_def sample_reply_def sample_room_def sample_world_def
  sample_message_def submitPayloadFor_def Let_def trim_def is_js_whitespace_def

theorem sendAgentResponseToBus_posts_unless_filtered_witness:
  "(reply_ignored (sample_reply\<lparr>c_actions := Some [''IGNORE'']\<rparr>)
      \<or> reply_blank (sample_reply\<lparr>c_actions := Some [''IGNORE'']\<rparr>))
   \<and> calls_of (sendAgentResponseToBus (sample_runtime True [''u-1'', ''a-1'']) ''c-1:a-1''
        ''s-1:a-1'' (sample_reply\<lparr>c_actions := Some [''IGNORE'']\<rparr>) (Some ''m-1:a-1'')
        (Some sample_message)) [] = []
   \<and> \<not> reply_ignored sample_reply \<and> \<not> reply_blank sample_reply
   \<and> getRoom (sample_runtime True [''u-1'', ''a-1'']) ''c-1:a-1'' [] = (Inr (Some sample_room), [])
   \<and> truthyS (room_channelId sample_room)
   \<and> getWorld (sample_runtime True [''u-1'', ''a-1'']) ''s-1:a-1'' [] = (Inr (Some sample_world), [])
   \<and> truthyS (world_serverId sample_world)
   \<and> getMemoryById (sample_runtime True [''u-1'', ''a-1'']) ''m-1:a-1'' [] = (Inr None, [])
   \<and> (\<exists>p cs. calls_of (sendAgentResponseToBus (sample_runtime True [''u-1'', ''a-1''])
          ''c-1:a-1'' ''s-1:a-1'' sample_reply (Some ''m-1:a-1'') (Some sample_message)) []
          = cs @ [PostSubmit p]
        \<and> filter is_postSubmit cs = []
        \<and> sp_channel_id p = ''c-1'' \<and> sp_server_id p = ''s-1'' \<and> sp_content p = ''hello''
        \<and> sp_author_id p = ''a-1'')"
proof -
  let ?rt = "sample_runtime True [''u-1'', ''a-1'']"
  let ?ign = "sample_reply\<lparr>c_actions := Some [''IGNORE'']\<rparr>"
  have h0: "reply_ignored ?ign \<or> reply_blank ?ign"
    by (simp add: reply_ignored_def sample_reply_def)
  have h1: "\<not> reply_ignored sample_reply" "\<not> reply_blank sample_reply"
    by (simp_all add: reply_ignored_def reply_blank_def sample_reply_def is_js_whitespace_def)
  have h2: "getRoom ?rt ''c-1:a-1'' [] = (Inr (Some sample_room), [])"
      "truthyS (room_channelId sample_room)"
    by (simp_all add: sample_runtime_def sample_room_def)
  have h3: "getWorld ?rt ''s-1:a-1'' [] = (Inr (Some sample_world), [])"
      "truthyS (world_serverId sample_world)"
    by (simp_all add: sample_runtime_def sample_world_def)
  have h4: "getMemoryById ?rt ''m-1:a-1'' [] = (Inr None, [])"
    by (simp add: sample_runtime_def)
  then have h5: "\<not> truthyS (Some ''m-1:a-1'')
      \<or> (\<exists>found s3. getMemoryById ?rt (the (Some ''m-1:a-1'')) [] = (Inr found, s3))"
    by simp
  have ids: "the (room_channelId sample_room) = ''c-1''" "the (world_serverId sample_world) = ''s-1''"
    "the (c_text sample_reply) = ''hello''" "agentId ?rt = ''a-1''"
    by (simp_all add: sample_room_def sample_world_def sample_reply_def sample_runtime_def)
  from sendAgentResponseToBus_posts_unless_filtered [where content = ?ign and rt = ?rt
      and rid = "''c-1:a-1''" and wid = "''s-1:a-1''" and irm = "Some ''m-1:a-1''"
      and om = "Some sample_message" and s = "[]"] h0
  have a: "calls_of (sendAgentResponseToBus ?rt ''c-1:a-1'' ''s-1:a-1'' ?ign (Some ''m-1:a-1'')
        (Some sample_message)) [] = []"
    by blast
  from sendAgentResponseToBus_posts_unless_filtered [where content = sample_reply and rt = ?rt
      and rid = "''c-1:a-1''" and wid = "''s-1:a-1''" and irm = "Some ''m-1:a-1''"
      and om = "Some sample_message" and s = "[]" and room = sample_room and ?s1.0 = "[]"
      and world = sample_world and ?s2.0 = "[]"] h1 h2 h3 h5
  have b: "\<exists>p cs. calls_of (sendAgentResponseToBus ?rt
          ''c-1:a-1'' ''s-1:a-1'' sample_reply (Some ''m-1:a-1'') (Some sample_message)) []
          = cs @ [PostSubmit p]
        \<and> filter is_postSubmit cs = []
        \<and> sp_channel_id p = ''c-1'' \<and> sp_server_id p = ''s-1'' \<and> sp_content p = ''hello''
        \<and> sp_author_id p = ''a-1''"
    unfolding ids by blast
  from h0 a h1 h2 h3 h4 b show ?thesis by blast
qed

text \<open>
  With a memory store that rejects the lookup, a reply that is neither ignored nor blank,
  for a room and world that map back to \<open>c-1\<close> and \<open>s-1\<close>, is not POSTed: the error
  is caught after the lookup and the handler returns.
\<close>

theorem failing_memory_lookup_blocks_post:
  "\<not> reply_ignored sample_reply \<and> \<not> reply_blank sample_reply
   \<and> getRoom failing_lookup_runtime ''c-1:a-1'' [] = (Inr (Some sample_room), [])
   \<and> room_channelId sample_room = Some ''c-1''
   \<and> getWorld failing_lookup_runtime ''s-1:a-1'' [] = (Inr (Some sample_world), [])
   \<and> world_serverId sample_world = Some ''s-1''
   \<and> calls_of (sendAgentResponseToBus failing_lookup_runtime ''c-1:a-1'' ''s-1:a-1''
        sample_reply (Some ''m-1:a-1'') (Some sample_message)) []
      = [GetRoom ''c-1:a-1'', GetWorld ''s-1:a-1'', GetMemoryById ''m-1:a-1'']"
  by (simp add: send_defs reply_ignored_def reply_blank_def)

section \<open>Properties of POST /central-channels/:channelId/messages\<close>

text \<open>
  C7. When the \<open>channelId\<close> parameter or \<open>author_id\<close> is not accepted by \<open>validateUuid\<close>, or
  \<open>content\<close> is missing (or empty), or \<open>server_id\<close> is neither the all-zero default id nor
  accepted by \<open>validateUuid\<close>, the answer is 400 with the error text, no effect is
  performed (no channel or message is created, nothing is emitted on the bus or a socket)
  and the store is unchanged.
\<close>

theorem post_rejects_invalid_request:
  assumes "\<not> truthyS (validateUuid (req_channelId req))
         \<or> \<not> truthyS (validateUuidS validateUuid (body_author_id req))
         \<or> \<not> truthyS (body_content req)
         \<or> (body_server_id req \<noteq> Some DEFAULT_SERVER_ID
            \<and> \<not> truthyS (validateUuidS validateUuid (body_server_id req)))"
  shows "postCentralChannelMessage srv validateUuid now req d =
           (\<lparr> status = 400,
              body = ErrorBody
                ''Missing required fields: channelId, server_id, author_id, content'' \<rparr>,
            [], d)"
  using assms by (auto simp: postCentralChannelMessage_def Let_def)

theorem post_rejects_invalid_request_witness:
  "\<not> truthyS (sample_validateUuid (req_channelId (sample_request\<lparr>req_channelId := ''general''\<rparr>)))
   \<and> postCentralChannelMessage sample_server sample_validateUuid ''2025-01-01T00:00:00.000Z''
        (sample_request\<lparr>req_channelId := ''general''\<rparr>) sample_db =
        (\<lparr> status = 400,
           body = ErrorBody
             ''Missing required fields: channelId, server_id, author_id, content'' \<rparr>,
         [], sample_db)
   \<and> \<not> truthyS (body_content (sample_request\<lparr>body_content := None\<rparr>))
   \<and> postCentralChannelMessage sample_server sample_validateUuid ''2025-01-01T00:00:00.000Z''
        (sample_request\<lparr>body_content := None\<rparr>) sample_db =
        (\<lparr> status = 400,
           body = ErrorBody
             ''Missing required fields: channelId, server_id, author_id, content'' \<rparr>,
         [], sample_db)"
proof -
  have h1: "\<not> truthyS (sample_validateUuid
              (req_channelId (sample_request\<lparr>req_channelId := ''general''\<rparr>)))"
    by (simp add: sample_validateUuid_def)
  have h2: "\<not> truthyS (body_content (sample_request\<lparr>body_content := None\<rparr>))"
    by simp
  from post_rejects_invalid_request [of sample_validateUuid
      "sample_request\<lparr>req_channelId := ''general''\<rparr>" sample_server
      "''2025-01-01T00:00:00.000Z''" sample_db]
    post_rejects_invalid_request [of sample_validateUuid
      "sample_request\<lparr>body_content := None\<rparr>" sample_server
      "''2025-01-01T00:00:00.000Z''" sample_db] h1 h2
  show ?thesis by blast
qed












section \<open>Round trip through the central store\<close>








section \<open>Properties of POST /channels/:channelId/upload-media\<close>

text \<open>
  C9. For a channel id accepted by \<open>validateUuid\<close> and an attached file: a MIME type outside
  the allow-list, a missing filename, a filename containing \<open>..\<close> or \<open>/\<close>, or a size above
  52428800 bytes (50 MB) is answered with 400; every other file is answered with success
  and the relative URL \<open>/media/uploads/channels/{channelId}/{filename}\<close>.
\<close>

theorem upload_media_validation:
  assumes "truthyS (validateUuid channelIdParam)"
  shows "(mf_mimetype f \<notin> set allowed \<or> \<not> truthyS (mf_filename f)
            \<or> str_includes (the (mf_filename f)) ''..''
            \<or> str_includes (the (mf_filename f)) ''/''
            \<or> mf_size f > 52428800 \<longrightarrow>
          status (uploadMedia validateUuid allowed channelIdParam (Some f)) = 400)
       \<and> (mf_mimetype f \<in> set allowed \<longrightarrow> truthyS (mf_filename f) \<longrightarrow>
          \<not> str_includes (the (mf_filename f)) ''..'' \<longrightarrow>
          \<not> str_includes (the (mf_filename f)) ''/'' \<longrightarrow>
          mf_size f \<le> 52428800 \<longrightarrow>
          uploadMedia validateUuid allowed channelIdParam (Some f) =
            \<lparr> status = 200,
              body = UploadBody
                \<lparr> up_url = ''/media/uploads/channels/'' @ the (validateUuid channelIdParam)
                             @ ''/'' @ the (mf_filename f),
                  up_type = mf_mimetype f,
                  up_filename = the (mf_filename f),
                  up_originalName = mf_originalname f,
                  up_size = mf_size f \<rparr> \<rparr>)"
  using assms by (auto simp: uploadMedia_def Let_def)

lemmas sample_uuid_defs = sample_validateUuid_def is_hex_def upt_rec

theorem upload_media_validation_witness:
  "truthyS (sample_validateUuid ''11111111-1111-1111-1111-111111111111'')
   \<and> status (uploadMedia sample_validateUuid [''image/png'', ''image/jpeg'']
        ''11111111-1111-1111-1111-111111111111''
        (Some (sample_file\<lparr>mf_filename := Some ''1700000000000-42-../cat.png''\<rparr>))) = 400
   \<and> status (uploadMedia sample_validateUuid [''image/png'', ''image/jpeg'']
        ''11111111-1111-1111-1111-111111111111''
        (Some (sample_file\<lparr>mf_mimetype := ''text/html''\<rparr>))) = 400
   \<and> status (uploadMedia sample_validateUuid [''image/png'', ''image/jpeg'']
        ''11111111-1111-1111-1111-111111111111''
        (Some (sample_file\<lparr>mf_size := 52428801\<rparr>))) = 400
   \<and> uploadMedia sample_validateUuid [''image/png'', ''image/jpeg'']
        ''11111111-1111-1111-1111-111111111111'' (Some sample_file) =
        \<lparr> status = 200,
          body = UploadBody
            \<lparr> up_url = ''/media/uploads/channels/11111111-1111-1111-1111-111111111111/1700000000000-42-cat.png'',
              up_type = ''image/png'',
              up_filename = ''1700000000000-42-cat.png'',
              up_originalName = ''cat.png'',
              up_size = 2048 \<rparr> \<rparr>"
proof -
  have h: "truthyS (sample_validateUuid ''11111111-1111-1111-1111-111111111111'')"
    by (simp add: sample_uuid_defs)
  have v: "the (sample_validateUuid ''11111111-1111-1111-1111-111111111111'')
             = ''11111111-1111-1111-1111-111111111111''"
    by (simp add: sample_uuid_defs)
  note t = upload_media_validation [where validateUuid = sample_validateUuid
      and channelIdParam = "''11111111-1111-1111-1111-111111111111''"
      and allowed = "[''image/png'', ''image/jpeg'']", OF h]
  from t [of "sample_file\<lparr>mf_filename := Some ''1700000000000-42-../cat.png''\<rparr>"]
  have a: "status (uploadMedia sample_validateUuid [''image/png'', ''image/jpeg'']
        ''11111111-1111-1111-1111-111111111111''
        (Some (sample_file\<lparr>mf_filename := Some ''1700000000000-42-../cat.png''\<rparr>))) = 400"
    by (simp add: sample_file_def)
  from t [of "sample_file\<lparr>mf_mimetype := ''text/html''\<rparr>"]
  have b: "status (uploadMedia sample_validateUuid [''image/png'', ''image/jpeg'']
        ''11111111-1111-1111-1111-111111111111''
        (Some (sample_file\<lparr>mf_mimetype := ''text/html''\<rparr>))) = 400"
    by (simp add: sample_file_def)
  from t [of "sample_file\<lparr>mf_size := 52428801\<rparr>"]
  have c: "status (uploadMedia sample_validateUuid [''image/png'', ''image/jpeg'']
        ''11111111-1111-1111-1111-111111111111''
        (Some (sample_file\<lparr>mf_size := 52428801\<rparr>))) = 400"
    by (simp add: sample_file_def)
  from t [of sample_file] v
  have d: "uploadMedia sample_validateUuid [''image/png'', ''image/jpeg'']
        ''11111111-1111-1111-1111-111111111111'' (Some sample_file) =
        \<lparr> status = 200,
          body = UploadBody
            \<lparr> up_url = ''/media/uploads/channels/11111111-1111-1111-1111-111111111111/1700000000000-42-cat.png'',
              up_type = ''image/png'',
              up_filename = ''1700000000000-42-cat.png'',
              up_originalName = ''cat.png'',
              up_size = 2048 \<rparr> \<rparr>"
    by (simp add: sample_file_def)
  from h a b c d show ?thesis by blast
qed


end
